theory Spec2Isabelle
  imports Main "HOL-Library.Word"
begin

section \<open>linenote: the extension's event handlers and commands\<close>

text \<open>
  The development embeds \<^verbatim>\<open>src/extension.ts\<close>: the body of \<^verbatim>\<open>activate\<close>, that is
  the periodic sweep \<^verbatim>\<open>automaticallyDelete\<close>, \<^verbatim>\<open>getSelectionLineRange\<close>, the
  document-change and document-close handlers and the commands
  \<^verbatim>\<open>linenote.addNote\<close>, \<^verbatim>\<open>linenote.openNote\<close> and \<^verbatim>\<open>linenote.removeNote\<close>.

  The handlers are \<^verbatim>\<open>async\<close> functions over the file system and the editor.  Here each
  one is a function from the world before the call to the world after it, paired with
  the reason of the rejection when the promise rejects.  One handler runs from start to
  end without another one interleaving.
\<close>

subsection \<open>JavaScript values\<close>

text \<open>
  A file path is only compared and tested for emptiness by the extension, so it is a
  \<open>string\<close>.  A note body is trimmed, which looks at its UTF-16 code units, so it is a
  list of 16-bit words.
\<close>

type_synonym fspath = string
type_synonym jsstring = "16 word list"

text \<open>
  Numbers: the finite ones are integers here (line numbers, milliseconds); the rounding
  of doubles is not modelled.  \<open>NaN\<close> and the infinities are kept, because
  \<^verbatim>\<open>typeof x === "number"\<close> accepts them.
\<close>

datatype jsnum = NaN | NegInf | Fin int | PosInf

datatype jsvalue =
    JUndefined
  | JNull
  | JBoolean bool
  | JNumber jsnum
  | JString jsstring
  | JObject

text \<open>\<^verbatim>\<open>a >= b\<close> on numbers: false as soon as one side is \<open>NaN\<close>.\<close>

fun js_ge :: "jsnum \<Rightarrow> jsnum \<Rightarrow> bool" where
  "js_ge NaN _ = False"
| "js_ge _ NaN = False"
| "js_ge PosInf _ = True"
| "js_ge _ NegInf = True"
| "js_ge NegInf _ = False"
| "js_ge _ PosInf = False"
| "js_ge (Fin a) (Fin b) = (b \<le> a)"

text \<open>\<^verbatim>\<open>a - b\<close> on numbers.\<close>

fun js_sub :: "jsnum \<Rightarrow> jsnum \<Rightarrow> jsnum" where
  "js_sub NaN _ = NaN"
| "js_sub _ NaN = NaN"
| "js_sub PosInf PosInf = NaN"
| "js_sub NegInf NegInf = NaN"
| "js_sub PosInf _ = PosInf"
| "js_sub NegInf _ = NegInf"
| "js_sub _ PosInf = NegInf"
| "js_sub _ NegInf = PosInf"
| "js_sub (Fin a) (Fin b) = Fin (a - b)"

text \<open>\<^verbatim>\<open>Math.max(a, b)\<close>: \<open>NaN\<close> as soon as one argument is \<open>NaN\<close>.\<close>

fun js_max :: "jsnum \<Rightarrow> jsnum \<Rightarrow> jsnum" where
  "js_max NaN _ = NaN"
| "js_max _ NaN = NaN"
| "js_max PosInf _ = PosInf"
| "js_max _ PosInf = PosInf"
| "js_max NegInf b = b"
| "js_max a NegInf = a"
| "js_max (Fin a) (Fin b) = Fin (max a b)"

text \<open>The truth value a condition \<^verbatim>\<open>if (v)\<close> gives to \<open>v\<close>.\<close>

fun truthy :: "jsvalue \<Rightarrow> bool" where
  "truthy JUndefined = False"
| "truthy JNull = False"
| "truthy (JBoolean b) = b"
| "truthy (JNumber NaN) = False"
| "truthy (JNumber (Fin n)) = (n \<noteq> 0)"
| "truthy (JNumber _) = True"
| "truthy (JString s) = (s \<noteq> [])"
| "truthy JObject = True"

text \<open>
  \<^verbatim>\<open>String.prototype.trim\<close> removes the white space and the line terminators of
  ECMAScript from both ends.  All of them are single code units.
\<close>

definition isWhiteSpace :: "16 word \<Rightarrow> bool" where
  "isWhiteSpace c \<longleftrightarrow>
     c = 0x0009 \<or> c = 0x000A \<or> c = 0x000B \<or> c = 0x000C \<or> c = 0x000D \<or>
     c = 0x0020 \<or> c = 0x00A0 \<or> c = 0x1680 \<or> (0x2000 \<le> c \<and> c \<le> 0x200A) \<or>
     c = 0x2028 \<or> c = 0x2029 \<or> c = 0x202F \<or> c = 0x205F \<or> c = 0x3000 \<or>
     c = 0xFEFF"

definition trim :: "jsstring \<Rightarrow> jsstring" where
  "trim s = rev (dropWhile isWhiteSpace (rev (dropWhile isWhiteSpace s)))"

subsection \<open>Notes and their storage\<close>

datatype error = InvalidNotePathError | NotFoundError | StorageError

record Note =
  sourceFilePath :: fspath
  fromLine :: int
  toLine :: int
  uid :: string
  notePath :: fspath

text \<open>The notes directory: the body of the file at each path that exists.\<close>

type_synonym storage = "fspath \<rightharpoonup> jsstring"

text \<open>
  Modelled from the spec: the class \<^verbatim>\<open>Note\<close> is in \<^verbatim>\<open>note.ts\<close>, which is not among
  the sources.  Its methods follow section 4.2 of the specification:
  \<^verbatim>\<open>noteExists\<close> is the existence check of the storage, \<^verbatim>\<open>read\<close> fails with
  \<^verbatim>\<open>NotFoundError\<close> when the file is absent, \<^verbatim>\<open>write\<close> overwrites, \<^verbatim>\<open>remove\<close> deletes
  the file and does nothing when it is absent.
\<close>

definition noteExists :: "Note \<Rightarrow> storage \<Rightarrow> bool" where
  "noteExists n s \<longleftrightarrow> s (notePath n) \<noteq> None"

definition Note_read :: "Note \<Rightarrow> storage \<Rightarrow> error + jsstring" where
  "Note_read n s = (case s (notePath n) of None \<Rightarrow> Inl NotFoundError | Some b \<Rightarrow> Inr b)"

definition Note_write :: "Note \<Rightarrow> jsstring \<Rightarrow> storage \<Rightarrow> storage" where
  "Note_write n body s = s(notePath n \<mapsto> body)"

definition Note_remove :: "Note \<Rightarrow> storage \<Rightarrow> storage" where
  "Note_remove n s = s(notePath n := None)"

text \<open>
  Modelled from the spec: \<^verbatim>\<open>isOverlapped\<close> is a method of \<^verbatim>\<open>Note\<close> in \<^verbatim>\<open>note.ts\<close>,
  which is not among the sources.  Section 4.2: true iff \<open>[from, to]\<close> intersects
  \<open>[fromLine, toLine]\<close>, both ranges inclusive.  Two inclusive ranges of lines share a
  line exactly when the greater of the lower ends is at most the lesser of the upper
  ends.
\<close>

definition isOverlapped :: "Note \<Rightarrow> int \<Rightarrow> int \<Rightarrow> bool" where
  "isOverlapped n from to \<longleftrightarrow> max from (fromLine n) \<le> min to (toLine n)"

subsection \<open>The editor\<close>

record position =
  line :: int
  character :: int

record selection =
  selStart :: position
  selEnd :: position

record textDocument =
  fsPath :: fspath
  lineCount :: int

record textEditor =
  document :: textDocument
  selection :: selection

text \<open>
  What the editor guarantees of a selection: positions are not negative and
  \<^verbatim>\<open>start\<close> is before or equal to \<^verbatim>\<open>end\<close>.
\<close>

definition isBeforeOrEqual :: "position \<Rightarrow> position \<Rightarrow> bool" where
  "isBeforeOrEqual p q \<longleftrightarrow>
     line p < line q \<or> (line p = line q \<and> character p \<le> character q)"

definition validPosition :: "position \<Rightarrow> bool" where
  "validPosition p \<longleftrightarrow> 0 \<le> line p \<and> 0 \<le> character p"

definition validSelection :: "selection \<Rightarrow> bool" where
  "validSelection s \<longleftrightarrow>
     validPosition (selStart s) \<and> validPosition (selEnd s) \<and>
     isBeforeOrEqual (selStart s) (selEnd s)"

text \<open>\<^verbatim>\<open>getSelectionLineRange\<close>: \<open>[from, to]\<close> of the editor's selection.\<close>

definition getSelectionLineRange :: "textEditor \<Rightarrow> int \<times> int" where
  "getSelectionLineRange editor =
     (line (selStart (selection editor)) + 1, line (selEnd (selection editor)) + 1)"

subsection \<open>The world the handlers run in\<close>

text \<open>
  \<open>disposed\<close> is the flag of \<^verbatim>\<open>activate\<close>; \<open>activeTextEditor\<close> is
  \<^verbatim>\<open>vscode.window.activeTextEditor\<close>; \<open>configuration\<close> is
  \<^verbatim>\<open>vscode.workspace.getConfiguration().get\<close>, \<open>JUndefined\<close> for a key that is not set;
  \<open>clock\<close> is what \<^verbatim>\<open>+new Date()\<close> reads, in milliseconds; \<open>timeouts\<close> holds the
  delay of every pending \<^verbatim>\<open>setTimeout(automaticallyDelete, delay)\<close>;
  \<open>decoratePending\<close> says that the debounced \<^verbatim>\<open>decorate\<close> has been requested and not
  run yet; \<open>opened\<close> lists the notes handed to the editor by \<^verbatim>\<open>open\<close>.
\<close>

record world =
  disposed :: bool
  activeTextEditor :: "textEditor option"
  configuration :: "string \<Rightarrow> jsvalue"
  storage :: storage
  clock :: int
  timeouts :: "jsnum list"
  decoratePending :: bool
  opened :: "fspath list"

text \<open>
  Modelled from the spec: \<^verbatim>\<open>open\<close> is a method of \<^verbatim>\<open>Note\<close> in \<^verbatim>\<open>note.ts\<close>, which is
  not among the sources.  Section 4.2 makes it a handoff of \<open>notePath\<close> to the host,
  section 7 lets it fail with \<^verbatim>\<open>NotFoundError\<close> on a missing note.
\<close>

definition Note_open :: "Note \<Rightarrow> world \<Rightarrow> error option \<times> world" where
  "Note_open n w =
     (if storage w (notePath n) = None then (Some NotFoundError, w)
      else (None, w\<lparr>opened := opened w @ [notePath n]\<rparr>))"

text \<open>
  The functions of \<^verbatim>\<open>note.ts\<close> and \<^verbatim>\<open>noteUtil.ts\<close> that decode and list note paths
  are not among the sources and the specification does not fix the naming grammar, so
  the handlers take them as parameters: \<^verbatim>\<open>isNotePath\<close>, \<^verbatim>\<open>Note.fromFsPath\<close> (which may
  look at the storage to reuse an identifier), \<^verbatim>\<open>Note.fromNotePath\<close> (which may fail),
  \<^verbatim>\<open>getCorrespondingNotes\<close> (which lists the storage) and
  \<^verbatim>\<open>removeNotCorrespondingNotes\<close> (which may change the world in any way, take any
  time on the clock, and fail).
\<close>

record deps =
  isNotePath :: "fspath \<Rightarrow> bool"
  fromFsPath :: "storage \<Rightarrow> fspath \<Rightarrow> int \<Rightarrow> int \<Rightarrow> Note"
  fromNotePath :: "fspath \<Rightarrow> error + Note"
  getCorrespondingNotes :: "storage \<Rightarrow> fspath \<Rightarrow> Note list"
  removeNotCorrespondingNotes :: "world \<Rightarrow> error option \<times> world"

text \<open>
  \<^verbatim>\<open>decorateDebounce()\<close>: the call only arms the 500 ms timer of the debounce; nothing
  else happens before the timer fires.
\<close>

definition decorateDebounce :: "world \<Rightarrow> world" where
  "decorateDebounce w = w\<lparr>decoratePending := True\<rparr>"

text \<open>\<^verbatim>\<open>setTimeout(automaticallyDelete, delay)\<close>.\<close>

definition setTimeout :: "jsnum \<Rightarrow> world \<Rightarrow> world" where
  "setTimeout delay w = w\<lparr>timeouts := timeouts w @ [delay]\<rparr>"

text \<open>
  The timer itself belongs to the runtime, not to the extension.  In Node.js, where the
  extension host runs, a delay that is larger than 2147483647 ms or less than 1 ms, or
  \<open>NaN\<close>, is set to 1 ms; any other delay is taken as it is.  \<open>timerDelay\<close> is the
  time after which the callback runs, at the earliest.
\<close>

definition TIMEOUT_MAX :: int where
  "TIMEOUT_MAX = 2147483647"

fun timerDelay :: "jsnum \<Rightarrow> int" where
  "timerDelay (Fin n) = (if 1 \<le> n \<and> n \<le> TIMEOUT_MAX then n else 1)"
| "timerDelay NaN = 1"
| "timerDelay PosInf = 1"
| "timerDelay NegInf = 1"

text \<open>
  The oldest pending timeout fires: it leaves the list and the clock has moved on by its
  delay.  The world returned is the one in which the callback, the next iteration of
  \<^verbatim>\<open>automaticallyDelete\<close>, starts.  \<open>None\<close> when no timeout is pending.
\<close>

definition fireTimeout :: "world \<Rightarrow> world option" where
  "fireTimeout w =
     (case timeouts w of
        [] \<Rightarrow> None
      | delay # rest \<Rightarrow> Some (w\<lparr>timeouts := rest, clock := clock w + timerDelay delay\<rparr>))"

subsection \<open>The periodic sweep\<close>

text \<open>
  One iteration of \<^verbatim>\<open>automaticallyDelete\<close>.  \<open>start\<close> and \<open>duration\<close> are read from
  the clock before and after the sweep, as the source does.
\<close>

definition automaticallyDelete :: "deps \<Rightarrow> world \<Rightarrow> error option \<times> world" where
  "automaticallyDelete d w =
     (if disposed w then (None, w)
      else
        let enable = configuration w ''linenote.automaticallyDelete'' in
        if truthy enable then
          (case configuration w ''linenote.automaticallyDeleteInterval'' of
             JNumber interval \<Rightarrow>
               if js_ge interval (Fin 0) then
                 let start = clock w in
                 (case removeNotCorrespondingNotes d w of
                    (Some e, w') \<Rightarrow> (Some e, w')
                  | (None, w') \<Rightarrow>
                      let duration = clock w' - start in
                      (None, setTimeout (js_max (Fin 0) (js_sub interval (Fin duration))) w'))
               else (None, w)
           | _ \<Rightarrow> (None, w))
        else (None, w))"

subsection \<open>Document events\<close>

text \<open>
  A change event carries the document and the list of changes.  A change replaces the
  text of the range \<open>cc_range\<close> (positions counted from 0) by \<open>cc_text\<close>.
\<close>

record vsRange =
  rangeStart :: position
  rangeEnd :: position

record contentChange =
  cc_range :: vsRange
  cc_text :: jsstring

record textDocumentChangeEvent =
  ev_document :: textDocument
  contentChanges :: "contentChange list"

text \<open>
  \<^verbatim>\<open>onDidChangeTextDocument\<close>.  The editor has one document object for each open file,
  so \<^verbatim>\<open>===\<close> on documents is equality here.
\<close>

definition onDidChangeTextDocument :: "world \<Rightarrow> textDocumentChangeEvent \<Rightarrow> world" where
  "onDidChangeTextDocument w event =
     (case activeTextEditor w of
        None \<Rightarrow> w
      | Some editor \<Rightarrow>
          if ev_document event = document editor then decorateDebounce w else w)"

text \<open>\<^verbatim>\<open>onDidCloseTextDocument\<close>: the event is the closed document.\<close>

definition onDidCloseTextDocument :: "deps \<Rightarrow> world \<Rightarrow> textDocument \<Rightarrow> error option \<times> world" where
  "onDidCloseTextDocument d w event =
     (let p = fsPath event in
      if isNotePath d p then
        (case fromNotePath d p of
           Inl e \<Rightarrow> (Some e, w)
         | Inr n \<Rightarrow>
             (case Note_read n (storage w) of
                Inl e \<Rightarrow> (Some e, w)
              | Inr body \<Rightarrow>
                  if length (trim body) = 0
                  then (None, w\<lparr>storage := Note_remove n (storage w)\<rparr>)
                  else (None, w)))
      else (None, w))"

subsection \<open>Commands\<close>

text \<open>\<^verbatim>\<open>linenote.addNote\<close>.\<close>

definition addNote :: "deps \<Rightarrow> world \<Rightarrow> error option \<times> world" where
  "addNote d w =
     (case activeTextEditor w of
        None \<Rightarrow> (None, w)
      | Some editor \<Rightarrow>
          let p = fsPath (document editor) in
          if isNotePath d p then (None, w)
          else
            let (from, to) = getSelectionLineRange editor;
                n = fromFsPath d (storage w) p from to;
                w1 = (if \<not> noteExists n (storage w)
                      then w\<lparr>storage := Note_write n [] (storage w)\<rparr>
                      else w)
            in Note_open n w1)"

text \<open>
  \<^verbatim>\<open>Promise.all(notes.map(async note => await note.open()))\<close>: every note is opened,
  also after one of them has failed, and the promise rejects with the first failure.
\<close>

fun openAll :: "Note list \<Rightarrow> world \<Rightarrow> error option \<times> world" where
  "openAll [] w = (None, w)"
| "openAll (n # ns) w =
     (let (e, w1) = Note_open n w;
          (es, w2) = openAll ns w1
      in (case e of Some x \<Rightarrow> Some x | None \<Rightarrow> es, w2))"

text \<open>
  The optional argument \<^verbatim>\<open>notePath?: string\<close> is \<open>None\<close> when it is not given; the test
  \<^verbatim>\<open>if (notePath)\<close> is also false for the empty string.  \<open>givenPath\<close> returns the
  path when the test succeeds.
\<close>

fun givenPath :: "fspath option \<Rightarrow> fspath option" where
  "givenPath None = None"
| "givenPath (Some p) = (if p = [] then None else Some p)"

text \<open>\<^verbatim>\<open>linenote.openNote\<close>.\<close>

definition openNote :: "deps \<Rightarrow> world \<Rightarrow> fspath option \<Rightarrow> error option \<times> world" where
  "openNote d w a =
     (case givenPath a of
        Some path \<Rightarrow>
          (case fromNotePath d path of
             Inl e \<Rightarrow> (Some e, w)
           | Inr n \<Rightarrow> Note_open n w)
      | None \<Rightarrow>
        (case activeTextEditor w of
           None \<Rightarrow> (None, w)
         | Some editor \<Rightarrow>
             let p = fsPath (document editor) in
             if isNotePath d p then (None, w)
             else
               let notes = getCorrespondingNotes d (storage w) p;
                   (from, to) = getSelectionLineRange editor
               in openAll (filter (\<lambda>n. isOverlapped n from to) notes) w))"

text \<open>\<^verbatim>\<open>linenote.removeNote\<close>.\<close>

definition removeNote :: "deps \<Rightarrow> world \<Rightarrow> fspath option \<Rightarrow> error option \<times> world" where
  "removeNote d w a =
     (case givenPath a of
        Some path \<Rightarrow>
          (case fromNotePath d path of
             Inl e \<Rightarrow> (Some e, w)
           | Inr n \<Rightarrow> (None, decorateDebounce (w\<lparr>storage := Note_remove n (storage w)\<rparr>)))
      | None \<Rightarrow>
        (case activeTextEditor w of
           None \<Rightarrow> (None, w)
         | Some editor \<Rightarrow>
             let p = fsPath (document editor) in
             if isNotePath d p then (None, w)
             else
               let notes = getCorrespondingNotes d (storage w) p;
                   (from, to) = getSelectionLineRange editor
               in (case find (\<lambda>n. isOverlapped n from to) notes of
                     None \<Rightarrow> (None, w)
                   | Some n \<Rightarrow>
                       (None, decorateDebounce (w\<lparr>storage := Note_remove n (storage w)\<rparr>)))))"

subsection \<open>A small notes directory for concrete runs\<close>

text \<open>
  The theorems below hold for every choice of the functions in \<open>deps\<close>.  To run
  the handlers on concrete worlds, the parameters are instantiated with a directory of
  three known notes under \<^verbatim>\<open>/notes/\<close>; the sweep of this instance removes nothing and
  takes 40 ms.
\<close>

definition note46 :: Note where
  "note46 = \<lparr>sourceFilePath = ''/proj/app.ts'', fromLine = 4, toLine = 6,
              uid = ''a'', notePath = ''/notes/app.ts.4.6.a''\<rparr>"

definition note55 :: Note where
  "note55 = \<lparr>sourceFilePath = ''/proj/app.ts'', fromLine = 5, toLine = 5,
              uid = ''b'', notePath = ''/notes/app.ts.5.5.b''\<rparr>"

definition note99 :: Note where
  "note99 = \<lparr>sourceFilePath = ''/proj/app.ts'', fromLine = 9, toLine = 9,
              uid = ''c'', notePath = ''/notes/app.ts.9.9.c''\<rparr>"

definition knownNotes :: "Note list" where
  "knownNotes = [note46, note55, note99]"

definition exampleDeps :: deps where
  "exampleDeps =
     \<lparr>isNotePath = (\<lambda>p. take 7 p = ''/notes/''),
      fromFsPath = (\<lambda>s p from to.
         case find (\<lambda>n. sourceFilePath n = p \<and> fromLine n = from \<and> toLine n = to
                         \<and> s (notePath n) \<noteq> None) knownNotes of
           Some n \<Rightarrow> n
         | None \<Rightarrow> \<lparr>sourceFilePath = p, fromLine = from, toLine = to,
                     uid = ''z'', notePath = ''/notes/new.z''\<rparr>),
      fromNotePath = (\<lambda>p.
         case find (\<lambda>n. notePath n = p) knownNotes of
           Some n \<Rightarrow> Inr n
         | None \<Rightarrow> Inl InvalidNotePathError),
      getCorrespondingNotes = (\<lambda>s p.
         filter (\<lambda>n. sourceFilePath n = p \<and> s (notePath n) \<noteq> None) knownNotes),
      removeNotCorrespondingNotes = (\<lambda>w. (None, w\<lparr>clock := clock w + 40\<rparr>))\<rparr>"

definition appDocument :: textDocument where
  "appDocument = \<lparr>fsPath = ''/proj/app.ts'', lineCount = 10\<rparr>"

text \<open>An editor on \<^verbatim>\<open>/proj/app.ts\<close> whose selection covers the lines \<open>a\<close> to \<open>b\<close>, counted from 0.\<close>

definition appEditor :: "int \<Rightarrow> int \<Rightarrow> textEditor" where
  "appEditor a b =
     \<lparr>document = appDocument,
      selection = \<lparr>selStart = \<lparr>line = a, character = 0\<rparr>,
                   selEnd = \<lparr>line = b, character = 0\<rparr>\<rparr>\<rparr>"

text \<open>An editor on a note file.\<close>

definition noteEditor :: textEditor where
  "noteEditor =
     \<lparr>document = \<lparr>fsPath = ''/notes/app.ts.4.6.a'', lineCount = 1\<rparr>,
      selection = \<lparr>selStart = \<lparr>line = 0, character = 0\<rparr>,
                   selEnd = \<lparr>line = 0, character = 0\<rparr>\<rparr>\<rparr>"

text \<open>
  A world with the given active editor, configuration and note files; nothing is
  pending.
\<close>

definition exampleWorld :: "textEditor option \<Rightarrow> (string \<Rightarrow> jsvalue) \<Rightarrow> storage \<Rightarrow> world" where
  "exampleWorld ed cfg s =
     \<lparr>disposed = False, activeTextEditor = ed, configuration = cfg, storage = s,
      clock = 1000, timeouts = [], decoratePending = False, opened = []\<rparr>"

definition noConfig :: "string \<Rightarrow> jsvalue" where
  "noConfig key = JUndefined"

definition sweepConfig :: "jsvalue \<Rightarrow> jsvalue \<Rightarrow> string \<Rightarrow> jsvalue" where
  "sweepConfig enable interval key =
     (if key = ''linenote.automaticallyDelete'' then enable
      else if key = ''linenote.automaticallyDeleteInterval'' then interval
      else JUndefined)"

text \<open>The three known notes on disk, with the bodies \<open>x\<close>, one space, and \<open>y\<close>.\<close>

definition threeNotes :: storage where
  "threeNotes =
     [notePath note46 \<mapsto> [0x78], notePath note55 \<mapsto> [0x20], notePath note99 \<mapsto> [0x79]]"

definition cursorWorld :: "int \<Rightarrow> int \<Rightarrow> world" where
  "cursorWorld a b = exampleWorld (Some (appEditor a b)) noConfig threeNotes"

definition noteFileWorld :: world where
  "noteFileWorld = exampleWorld (Some noteEditor) noConfig threeNotes"

definition sweepWorld :: "jsvalue \<Rightarrow> jsvalue \<Rightarrow> world" where
  "sweepWorld enable interval = exampleWorld None (sweepConfig enable interval) threeNotes"

text \<open>The document of the note whose body is one space.\<close>

definition blankNoteDocument :: textDocument where
  "blankNoteDocument = \<lparr>fsPath = ''/notes/app.ts.5.5.b'', lineCount = 1\<rparr>"

text \<open>
  The edit of the specification's example: \<^verbatim>\<open>/proj/app.ts\<close> had 10 lines and one note
  at \<open>[4, 6]\<close>; the three lines \<^verbatim>\<open>a\<close>, \<^verbatim>\<open>b\<close>, \<^verbatim>\<open>c\<close> have been inserted before
  line 2, that is at the start of the editor's line 1, so the document of the event has
  13 lines.  The editor shows that document.
\<close>

definition insertThreeBeforeLineTwo :: textDocumentChangeEvent where
  "insertThreeBeforeLineTwo =
     \<lparr>ev_document = appDocument\<lparr>lineCount := 13\<rparr>,
      contentChanges =
        [\<lparr>cc_range = \<lparr>rangeStart = \<lparr>line = 1, character = 0\<rparr>,
                       rangeEnd = \<lparr>line = 1, character = 0\<rparr>\<rparr>,
          cc_text = [0x61, 0x0A, 0x62, 0x0A, 0x63, 0x0A]\<rparr>]\<rparr>"

definition oneNote :: storage where
  "oneNote = [notePath note46 \<mapsto> [0x78]]"

definition editedWorld :: world where
  "editedWorld =
     exampleWorld (Some ((appEditor 0 0)\<lparr>document := appDocument\<lparr>lineCount := 13\<rparr>\<rparr>))
       noConfig oneNote"

subsection \<open>Notions of the specification used in the statements\<close>

text \<open>
  The range of a note, and the re-anchoring the specification describes for an edit
  that lies entirely before a range \<open>r\<close> of note lines (counted from 1): the replaced
  range ends on a line before the first line of \<open>r\<close>, and both ends of \<open>r\<close> move by the
  net line-count delta of the edit, the line feeds of the new text minus the lines the
  replaced range spans.  These follow the words of section 4.4 and are compared with
  what the change handler does.
\<close>

definition noteRange :: "Note \<Rightarrow> int \<times> int" where
  "noteRange n = (fromLine n, toLine n)"

definition specEditBefore :: "contentChange \<Rightarrow> int \<times> int \<Rightarrow> bool" where
  "specEditBefore c r \<longleftrightarrow> line (rangeEnd (cc_range c)) + 1 < fst r"

definition specLineDelta :: "contentChange \<Rightarrow> int" where
  "specLineDelta c =
     int (length (filter (\<lambda>u. u = 0x000A) (cc_text c)))
       - (line (rangeEnd (cc_range c)) - line (rangeStart (cc_range c)))"

definition specShiftedRange :: "contentChange \<Rightarrow> int \<times> int \<Rightarrow> int \<times> int" where
  "specShiftedRange c r = (fst r + specLineDelta c, snd r + specLineDelta c)"

text \<open>
  The two conditions of the configuration under which \<^verbatim>\<open>automaticallyDelete\<close> sweeps:
  \<^verbatim>\<open>linenote.automaticallyDelete\<close> is truthy and
  \<^verbatim>\<open>linenote.automaticallyDeleteInterval\<close> is a number that is \<open>\<ge> 0\<close>.
\<close>

definition sweepConfigured :: "world \<Rightarrow> bool" where
  "sweepConfigured w \<longleftrightarrow>
     truthy (configuration w ''linenote.automaticallyDelete'') \<and>
     (case configuration w ''linenote.automaticallyDeleteInterval'' of
        JNumber i \<Rightarrow> js_ge i (Fin 0)
      | _ \<Rightarrow> False)"

section \<open>Properties\<close>

subsection \<open>Auxiliary facts\<close>

lemma trim_Nil_iff: "trim s = [] \<longleftrightarrow> (\<forall>c \<in> set s. isWhiteSpace c)"
proof
  assume "trim s = []"
  then have "dropWhile isWhiteSpace (rev (dropWhile isWhiteSpace s)) = []"
    by (simp add: trim_def)
  then have a: "\<forall>c \<in> set (dropWhile isWhiteSpace s). isWhiteSpace c"
    by simp
  have "dropWhile isWhiteSpace s = []"
  proof (rule ccontr)
    assume ne: "dropWhile isWhiteSpace s \<noteq> []"
    then have "\<not> isWhiteSpace (hd (dropWhile isWhiteSpace s))"
      by (rule hd_dropWhile)
    moreover have "hd (dropWhile isWhiteSpace s) \<in> set (dropWhile isWhiteSpace s)"
      using ne by simp
    ultimately show False using a by blast
  qed
  then show "\<forall>c \<in> set s. isWhiteSpace c"
    by simp
next
  assume "\<forall>c \<in> set s. isWhiteSpace c"
  then have h: "dropWhile isWhiteSpace s = []"
    by simp
  show "trim s = []"
    unfolding trim_def h by simp
qed

lemma find_first:
  assumes "i < length xs" and "P (xs ! i)" and "\<forall>j<i. \<not> P (xs ! j)"
  shows "find P xs = Some (xs ! i)"
  using assms by (auto simp: find_Some_iff)

lemma find_none: "(\<forall>x \<in> set xs. \<not> P x) \<Longrightarrow> find P xs = None"
  by (simp add: find_None_iff)

lemma threeNotes_simps:
  "threeNotes (notePath note46) = Some [0x78]"
  "threeNotes (notePath note55) = Some [0x20]"
  "threeNotes (notePath note99) = Some [0x79]"
  by (simp_all add: threeNotes_def note46_def note55_def note99_def)

subsection \<open>Overlap of a note and a range\<close>

text \<open>
  Claim C7.  For every note and every query range \<open>[from, to]\<close>, \<open>isOverlapped\<close> is
  true exactly when the inclusive ranges \<open>[from, to]\<close> and \<open>[fromLine, toLine]\<close> have a
  line in common; the answer is the same when the note's range and the query range
  change roles; and ranges that touch at a single line overlap: the note \<open>[5, 5]\<close>
  overlaps the query \<open>[5, 10]\<close>.
\<close>

theorem isOverlapped_intersects:
  "(isOverlapped n from to \<longleftrightarrow> {from..to} \<inter> {fromLine n..toLine n} \<noteq> {}) \<and>
   (isOverlapped n from to \<longleftrightarrow>
      isOverlapped (n\<lparr>fromLine := from, toLine := to\<rparr>) (fromLine n) (toLine n)) \<and>
   isOverlapped (n\<lparr>fromLine := 5, toLine := 5\<rparr>) 5 10"
proof -
  have "{from..to} \<inter> {fromLine n..toLine n} = {max from (fromLine n)..min to (toLine n)}"
    by auto
  then have "isOverlapped n from to \<longleftrightarrow> {from..to} \<inter> {fromLine n..toLine n} \<noteq> {}"
    by (auto simp: isOverlapped_def)
  moreover have "isOverlapped n from to \<longleftrightarrow>
      isOverlapped (n\<lparr>fromLine := from, toLine := to\<rparr>) (fromLine n) (toLine n)"
    by (auto simp: isOverlapped_def)
  moreover have "isOverlapped (n\<lparr>fromLine := 5, toLine := 5\<rparr>) 5 10"
    by (simp add: isOverlapped_def)
  ultimately show ?thesis by blast
qed

subsection \<open>The line range of a selection\<close>

text \<open>
  Claim C8.  For every editor whose selection is valid (positions not negative, start
  at or before end), \<open>getSelectionLineRange\<close> returns the editor's start and end line
  each increased by 1, and the pair \<open>(from, to)\<close> satisfies \<open>1 \<le> from \<le> to\<close>.  Hence
  every note whose range is the range of such a selection has lines counted from 1 and
  \<open>fromLine \<le> toLine\<close>.
\<close>

theorem getSelectionLineRange_one_based:
  assumes "validSelection (selection editor)"
  shows "getSelectionLineRange editor =
           (line (selStart (selection editor)) + 1, line (selEnd (selection editor)) + 1) \<and>
         1 \<le> fst (getSelectionLineRange editor) \<and>
         fst (getSelectionLineRange editor) \<le> snd (getSelectionLineRange editor) \<and>
         (noteRange n = getSelectionLineRange editor \<longrightarrow>
            1 \<le> fromLine n \<and> fromLine n \<le> toLine n)"
  using assms
  by (auto simp: getSelectionLineRange_def validSelection_def validPosition_def
      isBeforeOrEqual_def noteRange_def)

theorem getSelectionLineRange_one_based_witness:
  "validSelection (selection (appEditor 3 5)) \<and>
   getSelectionLineRange (appEditor 3 5) = (4, 6) \<and>
   noteRange note46 = getSelectionLineRange (appEditor 3 5) \<and>
   1 \<le> fromLine note46 \<and> fromLine note46 \<le> toLine note46"
proof -
  have v: "validSelection (selection (appEditor 3 5))"
    by (simp add: validSelection_def validPosition_def isBeforeOrEqual_def appEditor_def)
  have r: "getSelectionLineRange (appEditor 3 5) = (4, 6)"
    using getSelectionLineRange_one_based [OF v] by (simp add: appEditor_def)
  have n: "noteRange note46 = getSelectionLineRange (appEditor 3 5)"
    by (simp add: r noteRange_def note46_def)
  show ?thesis
    using v r n getSelectionLineRange_one_based [OF v, of note46] by blast
qed

subsection \<open>Document changes\<close>

text \<open>
  Claim C2, as the specification states it, fails.  In the example of the
  specification (a note at \<open>[4, 6]\<close>, three lines inserted before line 2, the changed
  document being the one of the active editor) the edit lies entirely before the note
  and the re-anchored range would be \<open>[7, 9]\<close>; after the change handler has run, the
  note of the file is still at \<open>[4, 6]\<close>, and the handler has requested a decoration.
\<close>

theorem onDidChangeTextDocument_shift_counterexample:
  "map_option document (activeTextEditor editedWorld) =
     Some (ev_document insertThreeBeforeLineTwo) \<and>
   map noteRange (getCorrespondingNotes exampleDeps (storage editedWorld) ''/proj/app.ts'')
     = [(4, 6)] \<and>
   list_all (\<lambda>c. specEditBefore c (4, 6)) (contentChanges insertThreeBeforeLineTwo) \<and>
   fold specShiftedRange (contentChanges insertThreeBeforeLineTwo) (4, 6) = (7, 9) \<and>
   map noteRange (getCorrespondingNotes exampleDeps
       (storage (onDidChangeTextDocument editedWorld insertThreeBeforeLineTwo)) ''/proj/app.ts'')
     = [(4, 6)] \<and>
   decoratePending (onDidChangeTextDocument editedWorld insertThreeBeforeLineTwo)"
  by (simp add: onDidChangeTextDocument_def decorateDebounce_def editedWorld_def
      exampleWorld_def insertThreeBeforeLineTwo_def appEditor_def appDocument_def
      exampleDeps_def knownNotes_def note46_def note55_def note99_def oneNote_def
      noteRange_def specEditBefore_def specShiftedRange_def specLineDelta_def)

text \<open>
  Claim C2, amended.  On a document-change event the handler recomputes no line range:
  it leaves the note storage as it was, so the notes of every file are the same before
  and after; what it does is the same whatever the changes of the event are; and all it
  does is request the debounced decoration, when there is an active editor and the
  changed document is the document of that editor.
\<close>

theorem onDidChangeTextDocument_keeps_notes:
  "storage (onDidChangeTextDocument w event) = storage w \<and>
   getCorrespondingNotes d (storage (onDidChangeTextDocument w event)) p =
     getCorrespondingNotes d (storage w) p \<and>
   onDidChangeTextDocument w (event\<lparr>contentChanges := cs\<rparr>) = onDidChangeTextDocument w event \<and>
   onDidChangeTextDocument w event =
     (if map_option document (activeTextEditor w) = Some (ev_document event)
      then w\<lparr>decoratePending := True\<rparr> else w)"
  by (auto simp: onDidChangeTextDocument_def decorateDebounce_def split: option.splits)

subsection \<open>Closing a note\<close>

text \<open>
  Claim C3, as the specification states it, fails.  The note \<open>[5, 5]\<close> has the body of
  one space, which is not the empty body; closing its document removes the file.
\<close>

theorem onDidCloseTextDocument_blank_counterexample:
  "isNotePath exampleDeps (fsPath blankNoteDocument) \<and>
   storage (exampleWorld None noConfig threeNotes) (fsPath blankNoteDocument) = Some [0x20] \<and>
   [0x20 :: 16 word] \<noteq> [] \<and>
   storage (snd (onDidCloseTextDocument exampleDeps (exampleWorld None noConfig threeNotes)
      blankNoteDocument)) (fsPath blankNoteDocument) = None"
  by (simp add: onDidCloseTextDocument_def exampleDeps_def blankNoteDocument_def
      exampleWorld_def threeNotes_def knownNotes_def note46_def note55_def note99_def
      Note_read_def Note_remove_def trim_def isWhiteSpace_def)

text \<open>
  Claim C3, amended.  For every close event on a document whose path is a note path
  that decodes to a note whose file exists, the handler does not fail, and the note
  file is removed if and only if its body is empty after trimming, that is, every code
  unit of the body is white space or a line terminator (the empty body included).  When
  the body holds any other code unit, the world is left as it was.
\<close>

theorem onDidCloseTextDocument_removes_blank:
  assumes "isNotePath d (fsPath doc)"
    and "fromNotePath d (fsPath doc) = Inr n"
    and "storage w (notePath n) = Some body"
  shows "onDidCloseTextDocument d w doc =
           (None, if \<forall>c \<in> set body. isWhiteSpace c
                  then w\<lparr>storage := (storage w)(notePath n := None)\<rparr>
                  else w)"
  using assms
  by (simp add: onDidCloseTextDocument_def Note_read_def Note_remove_def trim_Nil_iff)

theorem onDidCloseTextDocument_removes_blank_witness:
  "isNotePath exampleDeps (fsPath blankNoteDocument) \<and>
   fromNotePath exampleDeps (fsPath blankNoteDocument) = Inr note55 \<and>
   storage (exampleWorld None noConfig threeNotes) (notePath note55) = Some [0x20] \<and>
   onDidCloseTextDocument exampleDeps (exampleWorld None noConfig threeNotes) blankNoteDocument =
     (None, exampleWorld None noConfig (threeNotes(notePath note55 := None))) \<and>
   isNotePath exampleDeps (fsPath (document noteEditor)) \<and>
   fromNotePath exampleDeps (fsPath (document noteEditor)) = Inr note46 \<and>
   storage (exampleWorld None noConfig threeNotes) (notePath note46) = Some [0x78] \<and>
   onDidCloseTextDocument exampleDeps (exampleWorld None noConfig threeNotes)
       (document noteEditor) =
     (None, exampleWorld None noConfig threeNotes)"
proof -
  have a': "isNotePath exampleDeps (fsPath (document noteEditor))"
    by (simp add: exampleDeps_def noteEditor_def)
  have b': "fromNotePath exampleDeps (fsPath (document noteEditor)) = Inr note46"
    by (simp add: exampleDeps_def noteEditor_def knownNotes_def note46_def)
  have c': "storage (exampleWorld None noConfig threeNotes) (notePath note46) = Some [0x78]"
    by (simp add: exampleWorld_def threeNotes_simps)
  have keep: "onDidCloseTextDocument exampleDeps (exampleWorld None noConfig threeNotes)
       (document noteEditor) = (None, exampleWorld None noConfig threeNotes)"
    using onDidCloseTextDocument_removes_blank [OF a' b' c']
    by (simp add: isWhiteSpace_def)
  have a: "isNotePath exampleDeps (fsPath blankNoteDocument)"
    by (simp add: exampleDeps_def blankNoteDocument_def)
  have b: "fromNotePath exampleDeps (fsPath blankNoteDocument) = Inr note55"
    by (simp add: exampleDeps_def blankNoteDocument_def knownNotes_def note46_def note55_def
        note99_def)
  have c: "storage (exampleWorld None noConfig threeNotes) (notePath note55) = Some [0x20]"
    by (simp add: exampleWorld_def threeNotes_simps)
  have e: "(exampleWorld None noConfig threeNotes)\<lparr>storage := threeNotes(notePath note55 := None)\<rparr>
      = exampleWorld None noConfig (threeNotes(notePath note55 := None))"
    by (simp add: exampleWorld_def)
  have s: "storage (exampleWorld None noConfig threeNotes) = threeNotes"
    by (simp add: exampleWorld_def)
  have drop: "onDidCloseTextDocument exampleDeps (exampleWorld None noConfig threeNotes)
       blankNoteDocument =
     (None, exampleWorld None noConfig (threeNotes(notePath note55 := None)))"
    using onDidCloseTextDocument_removes_blank [OF a b c]
    by (simp add: isWhiteSpace_def e s)
  show ?thesis
    using a b c drop a' b' c' keep by simp
qed

subsection \<open>Adding a note\<close>

text \<open>
  Claim C4.  \<^verbatim>\<open>linenote.addNote\<close> never overwrites the body of an existing note: every
  file that exists before the command has the same body after it; and the storage
  changes only by the write of the empty body to the note built from the current
  selection, and only when \<open>noteExists\<close> is false for that note.
\<close>

theorem addNote_keeps_existing_body:
  "(storage w q = Some b \<longrightarrow> storage (snd (addNote d w)) q = Some b) \<and>
   (storage (snd (addNote d w)) = storage w \<or>
    (\<exists>editor from to.
        activeTextEditor w = Some editor \<and>
        getSelectionLineRange editor = (from, to) \<and>
        \<not> noteExists (fromFsPath d (storage w) (fsPath (document editor)) from to) (storage w) \<and>
        storage (snd (addNote d w)) =
          Note_write (fromFsPath d (storage w) (fsPath (document editor)) from to) []
            (storage w)))"
proof -
  have 1: "storage w q = Some b \<longrightarrow> storage (snd (addNote d w)) q = Some b"
    by (auto simp: addNote_def Note_open_def Note_write_def noteExists_def Let_def
        split: option.splits prod.splits)
  have 2: "storage (snd (addNote d w)) = storage w \<or>
    (\<exists>editor from to.
        activeTextEditor w = Some editor \<and>
        getSelectionLineRange editor = (from, to) \<and>
        \<not> noteExists (fromFsPath d (storage w) (fsPath (document editor)) from to) (storage w) \<and>
        storage (snd (addNote d w)) =
          Note_write (fromFsPath d (storage w) (fsPath (document editor)) from to) []
            (storage w))"
    by (auto simp: addNote_def Note_open_def Note_write_def noteExists_def Let_def
        split: option.splits prod.splits)
  show ?thesis using 1 2 by blast
qed

theorem addNote_keeps_existing_body_witness:
  "storage (cursorWorld 3 5) (notePath note46) = Some [0x78] \<and>
   storage (snd (addNote exampleDeps (cursorWorld 3 5))) (notePath note46) = Some [0x78] \<and>
   addNote exampleDeps (cursorWorld 3 5) =
     (None, (cursorWorld 3 5)\<lparr>opened := [notePath note46]\<rparr>)"
proof -
  have a: "storage (cursorWorld 3 5) (notePath note46) = Some [0x78]"
    by (simp add: cursorWorld_def exampleWorld_def threeNotes_simps)
  have b: "addNote exampleDeps (cursorWorld 3 5) =
     (None, (cursorWorld 3 5)\<lparr>opened := [notePath note46]\<rparr>)"
    by (simp add: addNote_def cursorWorld_def exampleWorld_def appEditor_def appDocument_def
        exampleDeps_def getSelectionLineRange_def knownNotes_def noteExists_def Note_open_def
        threeNotes_def note46_def note55_def note99_def)
  show ?thesis
    using a b
      addNote_keeps_existing_body [of "cursorWorld 3 5" "notePath note46" "[0x78]" exampleDeps]
    by blast
qed

subsection \<open>The periodic sweep\<close>

text \<open>
  Where the interval is a floor.  In an iteration that runs with a finite interval
  \<open>i \<ge> 0\<close>, whose sweep completes after \<open>t\<close> ms with no other timeout pending, and
  whose delay \<open>max(0, i - t)\<close> is one the timer takes as it is or rounds up to 1 ms, the
  next iteration starts \<open>max(t + 1, i)\<close> ms after this one started, which is at least
  \<open>i\<close>.
\<close>

lemma automaticallyDelete_period_in_range:
  assumes "\<not> disposed w"
    and "truthy (configuration w ''linenote.automaticallyDelete'')"
    and "configuration w ''linenote.automaticallyDeleteInterval'' = JNumber (Fin i)"
    and "0 \<le> i"
    and "removeNotCorrespondingNotes d w = (None, w')"
    and "timeouts w' = []"
    and "t = clock w' - clock w"
    and "max 0 (i - t) \<le> TIMEOUT_MAX"
  shows "\<exists>w''. fireTimeout (snd (automaticallyDelete d w)) = Some w'' \<and>
               clock w'' - clock w = max (t + 1) i \<and>
               i \<le> clock w'' - clock w"
proof -
  have a: "automaticallyDelete d w = (None, w'\<lparr>timeouts := [Fin (max 0 (i - t))]\<rparr>)"
    using assms by (simp add: automaticallyDelete_def setTimeout_def)
  have f: "fireTimeout (snd (automaticallyDelete d w)) =
      Some (w'\<lparr>timeouts := [], clock := clock w' + timerDelay (Fin (max 0 (i - t)))\<rparr>)"
    by (simp add: a fireTimeout_def)
  have p: "clock w' + timerDelay (Fin (max 0 (i - t))) - clock w = max (t + 1) i"
    using assms(7,8) by auto
  show ?thesis
    using f p by auto
qed

lemma automaticallyDelete_period_in_range_example:
  "fireTimeout (snd (automaticallyDelete exampleDeps
      (sweepWorld (JBoolean True) (JNumber (Fin 100))))) =
     Some ((sweepWorld (JBoolean True) (JNumber (Fin 100)))\<lparr>clock := 1100\<rparr>) \<and>
   fireTimeout (snd (automaticallyDelete exampleDeps
      (sweepWorld (JBoolean True) (JNumber (Fin 25))))) =
     Some ((sweepWorld (JBoolean True) (JNumber (Fin 25)))\<lparr>clock := 1041\<rparr>)"
  by (simp add: automaticallyDelete_def setTimeout_def fireTimeout_def exampleDeps_def
      sweepWorld_def exampleWorld_def sweepConfig_def TIMEOUT_MAX_def)

text \<open>
  Claim C5 requires, for every interval \<open>i \<ge> 0\<close> and measured duration \<open>t\<close>, that the
  next iteration is scheduled after \<open>max(0, i - t)\<close>, so that the time from one sweep
  start to the next is \<open>max(t, i)\<close> and at least \<open>i\<close>.  The code does not keep that for
  an interval beyond the range of the timer.  With the interval 2592000000 ms (30 days),
  which the test \<^verbatim>\<open>interval >= 0\<close> admits, and a sweep of 40 ms started at 1000, the
  code hands the delay 2591999960 to \<^verbatim>\<open>setTimeout\<close>; the timer sets it to 1 ms, and the
  next iteration starts at 1041, that is 41 ms after the previous one, far less than the
  interval.  The interval \<open>Infinity\<close> gives the same 41 ms.
\<close>

theorem automaticallyDelete_period_month_interval:
  "configuration (sweepWorld (JBoolean True) (JNumber (Fin 2592000000)))
      ''linenote.automaticallyDeleteInterval'' = JNumber (Fin 2592000000) \<and>
   js_ge (Fin 2592000000) (Fin 0) \<and>
   clock (sweepWorld (JBoolean True) (JNumber (Fin 2592000000))) = 1000 \<and>
   automaticallyDelete exampleDeps (sweepWorld (JBoolean True) (JNumber (Fin 2592000000))) =
     (None, (sweepWorld (JBoolean True) (JNumber (Fin 2592000000)))
               \<lparr>clock := 1040, timeouts := [Fin 2591999960]\<rparr>) \<and>
   fireTimeout (snd (automaticallyDelete exampleDeps
      (sweepWorld (JBoolean True) (JNumber (Fin 2592000000))))) =
     Some ((sweepWorld (JBoolean True) (JNumber (Fin 2592000000)))\<lparr>clock := 1041\<rparr>) \<and>
   (1041 :: int) - 1000 < 2592000000 \<and>
   js_ge PosInf (Fin 0) \<and>
   automaticallyDelete exampleDeps (sweepWorld (JBoolean True) (JNumber PosInf)) =
     (None, (sweepWorld (JBoolean True) (JNumber PosInf))
               \<lparr>clock := 1040, timeouts := [PosInf]\<rparr>) \<and>
   fireTimeout (snd (automaticallyDelete exampleDeps
      (sweepWorld (JBoolean True) (JNumber PosInf)))) =
     Some ((sweepWorld (JBoolean True) (JNumber PosInf))\<lparr>clock := 1041\<rparr>)"
  by (simp add: automaticallyDelete_def setTimeout_def fireTimeout_def exampleDeps_def
      sweepWorld_def exampleWorld_def sweepConfig_def TIMEOUT_MAX_def)

text \<open>
  Claim C6.  An iteration of \<^verbatim>\<open>automaticallyDelete\<close> sweeps and schedules a successor
  only under both conditions of the configuration.  When
  \<^verbatim>\<open>linenote.automaticallyDelete\<close> is not truthy, or
  \<^verbatim>\<open>linenote.automaticallyDeleteInterval\<close> is not a number \<open>\<ge> 0\<close>, the iteration
  leaves the world as it was, whatever the sweep would do: nothing is swept and no
  timeout is set.  When both hold and the extension is not disposed, the iteration is
  the sweep followed, when the sweep completes, by one more timeout.
\<close>

theorem automaticallyDelete_only_when_configured:
  "(\<not> sweepConfigured w \<longrightarrow> automaticallyDelete d w = (None, w)) \<and>
   (sweepConfigured w \<and> \<not> disposed w \<longrightarrow>
      (\<exists>i. configuration w ''linenote.automaticallyDeleteInterval'' = JNumber i \<and>
        automaticallyDelete d w =
         (case removeNotCorrespondingNotes d w of
            (Some e, w') \<Rightarrow> (Some e, w')
          | (None, w') \<Rightarrow>
              (None, w'\<lparr>timeouts := timeouts w' @
                  [js_max (Fin 0) (js_sub i (Fin (clock w' - clock w)))]\<rparr>))))"
  by (auto simp: automaticallyDelete_def sweepConfigured_def setTimeout_def Let_def
      split: jsvalue.splits option.splits prod.splits)

theorem automaticallyDelete_only_when_configured_witness:
  "\<not> sweepConfigured (sweepWorld (JBoolean False) (JNumber (Fin 100))) \<and>
   automaticallyDelete exampleDeps (sweepWorld (JBoolean False) (JNumber (Fin 100))) =
     (None, sweepWorld (JBoolean False) (JNumber (Fin 100))) \<and>
   \<not> sweepConfigured (sweepWorld (JBoolean True) (JNumber (Fin (- 1)))) \<and>
   automaticallyDelete exampleDeps (sweepWorld (JBoolean True) (JNumber (Fin (- 1)))) =
     (None, sweepWorld (JBoolean True) (JNumber (Fin (- 1)))) \<and>
   \<not> sweepConfigured (sweepWorld (JBoolean True) (JNumber NaN)) \<and>
   automaticallyDelete exampleDeps (sweepWorld (JBoolean True) (JNumber NaN)) =
     (None, sweepWorld (JBoolean True) (JNumber NaN)) \<and>
   \<not> sweepConfigured (sweepWorld (JBoolean True) (JString [0x31])) \<and>
   automaticallyDelete exampleDeps (sweepWorld (JBoolean True) (JString [0x31])) =
     (None, sweepWorld (JBoolean True) (JString [0x31])) \<and>
   sweepConfigured (sweepWorld (JBoolean True) (JNumber (Fin 100))) \<and>
   \<not> disposed (sweepWorld (JBoolean True) (JNumber (Fin 100))) \<and>
   automaticallyDelete exampleDeps (sweepWorld (JBoolean True) (JNumber (Fin 100))) =
     (None, (sweepWorld (JBoolean True) (JNumber (Fin 100)))\<lparr>clock := 1040, timeouts := [Fin 60]\<rparr>)"
proof -
  have c: "\<not> sweepConfigured (sweepWorld (JBoolean False) (JNumber (Fin 100)))"
    "\<not> sweepConfigured (sweepWorld (JBoolean True) (JNumber (Fin (- 1))))"
    "\<not> sweepConfigured (sweepWorld (JBoolean True) (JNumber NaN))"
    "\<not> sweepConfigured (sweepWorld (JBoolean True) (JString [0x31]))"
    "sweepConfigured (sweepWorld (JBoolean True) (JNumber (Fin 100)))"
    "\<not> disposed (sweepWorld (JBoolean True) (JNumber (Fin 100)))"
    by (simp_all add: sweepConfigured_def sweepWorld_def exampleWorld_def sweepConfig_def)
  have r: "removeNotCorrespondingNotes exampleDeps (sweepWorld (JBoolean True) (JNumber (Fin 100)))
      = (None, (sweepWorld (JBoolean True) (JNumber (Fin 100)))\<lparr>clock := 1040\<rparr>)"
    "configuration (sweepWorld (JBoolean True) (JNumber (Fin 100)))
       ''linenote.automaticallyDeleteInterval'' = JNumber (Fin 100)"
    "clock (sweepWorld (JBoolean True) (JNumber (Fin 100))) = 1000"
    "timeouts (sweepWorld (JBoolean True) (JNumber (Fin 100))) = []"
    by (simp_all add: exampleDeps_def sweepWorld_def exampleWorld_def sweepConfig_def)
  show ?thesis
    using c
      automaticallyDelete_only_when_configured
        [of "sweepWorld (JBoolean False) (JNumber (Fin 100))" exampleDeps]
      automaticallyDelete_only_when_configured
        [of "sweepWorld (JBoolean True) (JNumber (Fin (- 1)))" exampleDeps]
      automaticallyDelete_only_when_configured
        [of "sweepWorld (JBoolean True) (JNumber NaN)" exampleDeps]
      automaticallyDelete_only_when_configured
        [of "sweepWorld (JBoolean True) (JString [0x31])" exampleDeps]
      automaticallyDelete_only_when_configured
        [of "sweepWorld (JBoolean True) (JNumber (Fin 100))" exampleDeps]
    by (simp add: r)
qed

subsection \<open>Commands on a note file\<close>

text \<open>
  Claim C9.  When the document of the active editor is a note file, \<^verbatim>\<open>linenote.addNote\<close>
  returns without any effect, and so do \<^verbatim>\<open>linenote.openNote\<close> and
  \<^verbatim>\<open>linenote.removeNote\<close> when they are invoked without a note path: the world after
  the command is the world before it, so no note is built, written, opened or removed
  and the storage is unchanged.
\<close>

theorem commands_skip_note_files:
  assumes "activeTextEditor w = Some editor"
    and "isNotePath d (fsPath (document editor))"
  shows "addNote d w = (None, w) \<and>
         (givenPath a = None \<longrightarrow> openNote d w a = (None, w)) \<and>
         (givenPath a = None \<longrightarrow> removeNote d w a = (None, w))"
  using assms by (simp add: addNote_def openNote_def removeNote_def)

theorem commands_skip_note_files_witness:
  "activeTextEditor noteFileWorld = Some noteEditor \<and>
   isNotePath exampleDeps (fsPath (document noteEditor)) \<and>
   givenPath None = None \<and> givenPath (Some []) = None \<and>
   addNote exampleDeps noteFileWorld = (None, noteFileWorld) \<and>
   openNote exampleDeps noteFileWorld None = (None, noteFileWorld) \<and>
   removeNote exampleDeps noteFileWorld (Some []) = (None, noteFileWorld)"
proof -
  have a: "activeTextEditor noteFileWorld = Some noteEditor"
    by (simp add: noteFileWorld_def exampleWorld_def)
  have b: "isNotePath exampleDeps (fsPath (document noteEditor))"
    by (simp add: exampleDeps_def noteEditor_def)
  show ?thesis
    using a b commands_skip_note_files [OF a b, of None]
      commands_skip_note_files [OF a b, of "Some []"]
    by simp
qed

subsection \<open>Removing the note at the cursor\<close>

text \<open>
  Claim C10.  When \<^verbatim>\<open>linenote.removeNote\<close> is invoked without a note path on an editor
  whose document is not a note file, with \<open>notes\<close> the sequence returned by
  \<open>getCorrespondingNotes\<close> and \<open>[from, to]\<close> the selection: if no note of the sequence
  overlaps the selection, the world is unchanged (nothing is removed, no decoration is
  requested); otherwise the file of the first overlapping note of the sequence is
  removed and a decoration is requested, and nothing else changes.  In every case at
  most one path of the storage changes.
\<close>

theorem removeNote_at_cursor_removes_first:
  assumes "givenPath a = None"
    and "activeTextEditor w = Some editor"
    and "\<not> isNotePath d (fsPath (document editor))"
    and "notes = getCorrespondingNotes d (storage w) (fsPath (document editor))"
    and "getSelectionLineRange editor = (from, to)"
  shows "((\<forall>n \<in> set notes. \<not> isOverlapped n from to) \<longrightarrow> removeNote d w a = (None, w)) \<and>
         (\<forall>i < length notes.
             isOverlapped (notes ! i) from to \<and> (\<forall>j < i. \<not> isOverlapped (notes ! j) from to) \<longrightarrow>
             removeNote d w a =
               (None, w\<lparr>storage := (storage w)(notePath (notes ! i) := None),
                        decoratePending := True\<rparr>)) \<and>
         (\<exists>p. \<forall>q. q \<noteq> p \<longrightarrow> storage (snd (removeNote d w a)) q = storage w q)"
proof -
  have r: "removeNote d w a =
      (case find (\<lambda>n. isOverlapped n from to) notes of
         None \<Rightarrow> (None, w)
       | Some n \<Rightarrow> (None, decorateDebounce (w\<lparr>storage := Note_remove n (storage w)\<rparr>)))"
    using assms by (simp add: removeNote_def)
  have 1: "(\<forall>n \<in> set notes. \<not> isOverlapped n from to) \<longrightarrow> removeNote d w a = (None, w)"
    by (simp add: r find_none)
  have 2: "\<forall>i < length notes.
             isOverlapped (notes ! i) from to \<and> (\<forall>j < i. \<not> isOverlapped (notes ! j) from to) \<longrightarrow>
             removeNote d w a =
               (None, w\<lparr>storage := (storage w)(notePath (notes ! i) := None),
                        decoratePending := True\<rparr>)"
    by (auto simp: r find_first [where P = "\<lambda>n. isOverlapped n from to"]
        decorateDebounce_def Note_remove_def)
  have 3: "\<exists>p. \<forall>q. q \<noteq> p \<longrightarrow> storage (snd (removeNote d w a)) q = storage w q"
  proof (cases "find (\<lambda>n. isOverlapped n from to) notes")
    case None
    then show ?thesis by (simp add: r)
  next
    case (Some n)
    then have "\<forall>q. q \<noteq> notePath n \<longrightarrow> storage (snd (removeNote d w a)) q = storage w q"
      by (simp add: r decorateDebounce_def Note_remove_def)
    then show ?thesis by blast
  qed
  show ?thesis using 1 2 3 by blast
qed

theorem removeNote_at_cursor_removes_first_witness:
  "getCorrespondingNotes exampleDeps (storage (cursorWorld 4 4)) ''/proj/app.ts''
     = [note46, note55, note99] \<and>
   getSelectionLineRange (appEditor 4 4) = (5, 5) \<and>
   isOverlapped note46 5 5 \<and> isOverlapped note55 5 5 \<and>
   removeNote exampleDeps (cursorWorld 4 4) None =
     (None, (cursorWorld 4 4)\<lparr>storage := threeNotes(notePath note46 := None),
                              decoratePending := True\<rparr>) \<and>
   getSelectionLineRange (appEditor 7 7) = (8, 8) \<and>
   removeNote exampleDeps (cursorWorld 7 7) None = (None, cursorWorld 7 7)"
proof -
  let ?notes = "[note46, note55, note99]"
  have g: "givenPath None = None" by simp
  have e: "activeTextEditor (cursorWorld 4 4) = Some (appEditor 4 4)"
    "activeTextEditor (cursorWorld 7 7) = Some (appEditor 7 7)"
    by (simp_all add: cursorWorld_def exampleWorld_def)
  have p: "\<not> isNotePath exampleDeps (fsPath (document (appEditor 4 4)))"
    "\<not> isNotePath exampleDeps (fsPath (document (appEditor 7 7)))"
    by (simp_all add: exampleDeps_def appEditor_def appDocument_def)
  have s: "storage (cursorWorld 4 4) = threeNotes" "storage (cursorWorld 7 7) = threeNotes"
    by (simp_all add: cursorWorld_def exampleWorld_def)
  have c: "getCorrespondingNotes exampleDeps threeNotes ''/proj/app.ts'' = ?notes"
    by (simp add: exampleDeps_def knownNotes_def threeNotes_simps)
      (simp add: note46_def note55_def note99_def)
  have n: "?notes = getCorrespondingNotes exampleDeps (storage (cursorWorld 4 4))
             (fsPath (document (appEditor 4 4)))"
    "?notes = getCorrespondingNotes exampleDeps (storage (cursorWorld 7 7))
             (fsPath (document (appEditor 7 7)))"
    by (simp_all add: s c appEditor_def appDocument_def)
  have r: "getSelectionLineRange (appEditor 4 4) = (5, 5)"
    "getSelectionLineRange (appEditor 7 7) = (8, 8)"
    by (simp_all add: getSelectionLineRange_def appEditor_def)
  have o: "isOverlapped note46 5 5" "isOverlapped note55 5 5"
    "\<not> isOverlapped note46 8 8" "\<not> isOverlapped note55 8 8" "\<not> isOverlapped note99 8 8"
    by (simp_all add: isOverlapped_def note46_def note55_def note99_def)
  have hit: "removeNote exampleDeps (cursorWorld 4 4) None =
     (None, (cursorWorld 4 4)\<lparr>storage := threeNotes(notePath note46 := None),
                              decoratePending := True\<rparr>)"
    using removeNote_at_cursor_removes_first [OF g e(1) p(1) n(1) r(1)] o(1)
    by (auto simp: s)
  have miss: "removeNote exampleDeps (cursorWorld 7 7) None = (None, cursorWorld 7 7)"
    using removeNote_at_cursor_removes_first [OF g e(2) p(2) n(2) r(2)] o(3-5)
    by simp
  show ?thesis
    using hit miss r o(1,2) c s(1) by simp
qed

end
